theory Spec2Isabelle
  imports Main
begin

section \<open>The accelerator resolver of pydevd\_frame\_eval\_cython\_wrapper.py\<close>

text \<open>
  The module is a single block of statements run once when it is imported:
  \<^verbatim>\<open>
  try:
      from _pydevd_frame_eval.pydevd_frame_evaluator import frame_eval_func, stop_frame_eval
  except ImportError:
      try:
          import struct
          import sys
          try:
              is_64bits = sys.maxsize > 2**32
          except:
              raise ImportError
          plat = '32'
          if is_64bits:
              plat = '64'
          mod_name = 'pydevd_frame_evaluator_%s_%s%s_%s' % (sys.platform, sys.version_info[0], sys.version_info[1], plat)
          check_name = '_pydevd_frame_eval.%s' % (mod_name,)
          mod = __import__(check_name)
          mod = getattr(mod, mod_name)
          frame_eval_func, stop_frame_eval = mod.frame_eval_func, mod.stop_frame_eval
      except ImportError:
          raise
  \<close>
  Everything it reads from the interpreter (the import system, \<open>sys\<close>) is a parameter of the
  model; exceptions are values of a sum type; the module namespace and the sequence of
  interpreter operations performed are explicit state.
\<close>

subsection \<open>Values and exceptions\<close>

text \<open>
  Exceptions carry their message. \<open>ImportError\<close> stands for the class and its subclasses
  (what the clause \<open>except ImportError\<close> catches); \<open>OtherException\<close> is any other class,
  by name. \<open>WithContext e c\<close> is the exception \<open>e\<close> raised by a \<open>raise\<close> statement while
  \<open>c\<close> was being handled: the interpreter keeps \<open>c\<close> as the \<open>__context__\<close> of \<open>e\<close>. The class
  of an exception does not depend on its context.
\<close>

datatype exn =
    ImportError string
  | AttributeError string
  | TypeError string
  | ValueError string
  | OtherException string string
  | WithContext exn exn

fun is_ImportError :: "exn \<Rightarrow> bool" where
  "is_ImportError (ImportError m) = True"
| "is_ImportError (WithContext e c) = is_ImportError e"
| "is_ImportError e = False"

fun is_AttributeError :: "exn \<Rightarrow> bool" where
  "is_AttributeError (AttributeError m) = True"
| "is_AttributeError (WithContext e c) = is_AttributeError e"
| "is_AttributeError e = False"

text \<open>
  The objects the module handles: opaque callables, and modules, packages or whatever
  object the import system returns, with their attributes. Reading an attribute gives its
  value, or raises: \<open>AttributeError\<close> when the object has no such attribute, and any
  exception at all when the object computes the attribute (a module-level \<open>__getattr__\<close>,
  a property), which is the \<open>Inl\<close> stored for that name.
\<close>

datatype pyobj =
    Func string
  | Module "(string \<times> (exn + pyobj)) list"

fun getattr :: "pyobj \<Rightarrow> string \<Rightarrow> exn + pyobj" where
  "getattr (Module attrs) name =
     (case map_of attrs name of
        None \<Rightarrow> Inl (AttributeError name)
      | Some r \<Rightarrow> r)"
| "getattr (Func f) name = Inl (AttributeError name)"

subsection \<open>String formatting\<close>

text \<open>\<open>str\<close> of an integer: its decimal numeral, with a sign when negative.\<close>

definition digit :: "nat \<Rightarrow> char" where
  "digit d = ''0123456789'' ! d"

fun str_nat :: "nat \<Rightarrow> string" where
  "str_nat n = (if n < 10 then [digit n] else str_nat (n div 10) @ [digit (n mod 10)])"

declare str_nat.simps [simp del]

definition str_int :: "int \<Rightarrow> string" where
  "str_int i = (if i < 0 then CHR ''-'' # str_nat (nat (- i)) else str_nat (nat i))"

datatype fmt_arg = AStr string | AInt int

fun str_of :: "fmt_arg \<Rightarrow> string" where
  "str_of (AStr s) = s"
| "str_of (AInt i) = str_int i"

text \<open>
  The operator \<open>%\<close> on a format string and a tuple of arguments, for the conversions
  \<open>%s\<close> and \<open>%%\<close>: each \<open>%s\<close> consumes one argument and inserts its \<open>str\<close>; too few or too
  many arguments raise \<open>TypeError\<close>, a malformed conversion raises \<open>ValueError\<close>.
\<close>

fun percent_format :: "string \<Rightarrow> fmt_arg list \<Rightarrow> exn + string" where
  "percent_format [] [] = Inr []"
| "percent_format [] (a # args) =
     Inl (TypeError ''not all arguments converted during string formatting'')"
| "percent_format (c # cs) args =
     (if c = CHR ''%'' then
        (case cs of
           [] \<Rightarrow> Inl (ValueError ''incomplete format'')
         | d # ds \<Rightarrow>
             if d = CHR ''s'' then
               (case args of
                  [] \<Rightarrow> Inl (TypeError ''not enough arguments for format string'')
                | a # rest \<Rightarrow> map_sum id ((@) (str_of a)) (percent_format ds rest))
             else if d = CHR ''%'' then map_sum id ((#) CHR ''%'') (percent_format ds args)
             else Inl (ValueError ''unsupported format character''))
      else map_sum id ((#) c) (percent_format cs args))"

text \<open>Lines 24 and 25: the two format expressions.\<close>

definition mod_name_of :: "string \<Rightarrow> int \<Rightarrow> int \<Rightarrow> string \<Rightarrow> exn + string" where
  "mod_name_of platform major minor plat =
     percent_format ''pydevd_frame_evaluator_%s_%s%s_%s''
       [AStr platform, AInt major, AInt minor, AStr plat]"

definition check_name_of :: "string \<Rightarrow> exn + string" where
  "check_name_of mod_name = percent_format ''_pydevd_frame_eval.%s'' [AStr mod_name]"

text \<open>Lines 8 and 12 to 14: the comparison and the marker chosen from it.\<close>

definition is_64bits_of :: "int \<Rightarrow> bool" where
  "is_64bits_of maxsize = (maxsize > 2 ^ 32)"

definition plat_of :: "bool \<Rightarrow> string" where
  "plat_of is_64bits = (let plat = ''32'' in if is_64bits then ''64'' else plat)"


subsection \<open>The interpreter as seen by the module\<close>

text \<open>
  \<open>sys.version_info\<close> is a named tuple; index 0 is \<open>major\<close> and index 1 is \<open>minor\<close>.
\<close>

record version_info =
  major :: int
  minor :: int
  micro :: int
  releaselevel :: string
  serial :: int

text \<open>
  \<open>import_module name fromlist\<close> is the built-in \<open>__import__\<close>: it returns the module
  named \<open>name\<close> when \<open>fromlist\<close> is not empty and the top-level package of \<open>name\<close> when it
  is, or raises. \<open>sys_maxsize\<close> is the read of \<open>sys.maxsize\<close>, which raises on interpreters
  without that attribute. The module \<open>sys\<close> is built into the interpreter: importing it
  does not fail.
\<close>

record env =
  import_module :: "string \<Rightarrow> string list \<Rightarrow> exn + pyobj"
  sys_maxsize :: "exn + int"
  sys_platform :: string
  sys_version_info :: version_info

text \<open>The interpreter operations the module performs, in the order performed.\<close>

datatype event =
    EvImport string "string list"
  | EvMaxsize
  | EvFormat string
  | EvGetattr string

text \<open>
  The state: the two exported names of the module namespace, and the operations performed
  so far. (The other names the module binds, \<open>struct\<close>, \<open>sys\<close>, \<open>is_64bits\<close>, \<open>plat\<close>,
  \<open>mod_name\<close>, \<open>check_name\<close> and \<open>mod\<close>, are the bound variables of the model.)
\<close>

record state =
  globals :: "string \<rightharpoonup> pyobj"
  trace :: "event list"

definition init_state :: state where
  "init_state = \<lparr>globals = Map.empty, trace = []\<rparr>"

type_synonym 'a step = "state \<Rightarrow> (exn + 'a) \<times> state"

definition ret :: "'a \<Rightarrow> 'a step" where
  "ret x = (\<lambda>s. (Inr x, s))"

definition throw :: "exn \<Rightarrow> 'a step" where
  "throw e = (\<lambda>s. (Inl e, s))"

definition lift :: "exn + 'a \<Rightarrow> 'a step" where
  "lift r = (\<lambda>s. (r, s))"

definition seq :: "'a step \<Rightarrow> ('a \<Rightarrow> 'b step) \<Rightarrow> 'b step" where
  "seq m f = (\<lambda>s. case m s of (Inl e, s') \<Rightarrow> (Inl e, s') | (Inr x, s') \<Rightarrow> f x s')"

definition try_except :: "'a step \<Rightarrow> (exn \<Rightarrow> 'a step) \<Rightarrow> 'a step" where
  "try_except m handler =
     (\<lambda>s. case m s of (Inl e, s') \<Rightarrow> handler e s' | (Inr x, s') \<Rightarrow> (Inr x, s'))"

definition log :: "event \<Rightarrow> unit step" where
  "log ev = (\<lambda>s. (Inr (), s\<lparr>trace := trace s @ [ev]\<rparr>))"

definition store :: "string \<Rightarrow> pyobj \<Rightarrow> unit step" where
  "store name v = (\<lambda>s. (Inr (), s\<lparr>globals := (globals s)(name \<mapsto> v)\<rparr>))"

subsection \<open>The statements of the module\<close>

definition import_name :: "env \<Rightarrow> string \<Rightarrow> string list \<Rightarrow> pyobj step" where
  "import_name env name fromlist =
     seq (log (EvImport name fromlist)) (\<lambda>_. lift (import_module env name fromlist))"

text \<open>
  \<open>from m import name\<close> reads the attribute of the imported module; an \<open>AttributeError\<close> of
  that read becomes an \<open>ImportError\<close> (cannot import name), any other exception of the read
  passes.
\<close>

definition import_from :: "pyobj \<Rightarrow> string \<Rightarrow> pyobj step" where
  "import_from m name =
     lift (case getattr m name of
             Inl e \<Rightarrow>
               if is_AttributeError e then Inl (ImportError (''cannot import name '' @ name))
               else Inl e
           | Inr v \<Rightarrow> Inr v)"

definition getattr_step :: "pyobj \<Rightarrow> string \<Rightarrow> pyobj step" where
  "getattr_step obj name = seq (log (EvGetattr name)) (\<lambda>_. lift (getattr obj name))"

definition format_step :: "exn + string \<Rightarrow> string step" where
  "format_step r =
     seq (lift r) (\<lambda>str. seq (log (EvFormat str)) (\<lambda>_. ret str))"

definition default_name :: string where
  "default_name = ''_pydevd_frame_eval.pydevd_frame_evaluator''"

definition capability_names :: "string list" where
  "capability_names = [''frame_eval_func'', ''stop_frame_eval'']"

text \<open>
  Line 2. The statement imports the module, then reads and binds the two names one after
  the other, in the order written.
\<close>

definition primary :: "env \<Rightarrow> unit step" where
  "primary env =
     seq (import_name env default_name capability_names) (\<lambda>m.
     seq (import_from m ''frame_eval_func'') (\<lambda>f.
     seq (store ''frame_eval_func'' f) (\<lambda>_.
     seq (import_from m ''stop_frame_eval'') (\<lambda>g.
     store ''stop_frame_eval'' g))))"

text \<open>
  Lines 7 to 11: any exception of the comparison is replaced by a new \<open>ImportError\<close>
  without arguments. It is raised inside the handler, so it has the caught exception as
  its context. This is the only exception the module itself creates; all the others come
  from the interpreter (the results of \<open>import_module\<close>, \<open>sys_maxsize\<close> and \<open>getattr\<close>) and
  are passed as they are.
\<close>

definition query_bitness :: "env \<Rightarrow> bool step" where
  "query_bitness env =
     try_except
       (seq (log EvMaxsize) (\<lambda>_.
        seq (lift (sys_maxsize env)) (\<lambda>maxsize.
        ret (is_64bits_of maxsize))))
       (\<lambda>e. throw (WithContext (ImportError []) e))"

text \<open>
  Lines 5 to 28, the body of the inner \<open>try\<close>; \<open>mod1\<close> and \<open>mod2\<close> are the two successive
  values of the variable \<open>mod\<close>. On line 28 both attributes are read before either name is
  bound.
\<close>

definition fallback_body :: "env \<Rightarrow> unit step" where
  "fallback_body env =
     seq (import_name env ''struct'' []) (\<lambda>struct.
     seq (log (EvImport ''sys'' [])) (\<lambda>_.
     seq (query_bitness env) (\<lambda>is_64bits.
     seq (format_step (mod_name_of (sys_platform env) (major (sys_version_info env))
            (minor (sys_version_info env)) (plat_of is_64bits))) (\<lambda>mod_name.
     seq (format_step (check_name_of mod_name)) (\<lambda>check_name.
     seq (import_name env check_name []) (\<lambda>mod1.
     seq (getattr_step mod1 mod_name) (\<lambda>mod2.
     seq (getattr_step mod2 ''frame_eval_func'') (\<lambda>f.
     seq (getattr_step mod2 ''stop_frame_eval'') (\<lambda>g.
     seq (store ''frame_eval_func'' f) (\<lambda>_.
     store ''stop_frame_eval'' g))))))))))"

text \<open>Lines 4 to 30: the inner \<open>try\<close> with its handler, which raises again what it caught.\<close>

definition fallback :: "env \<Rightarrow> unit step" where
  "fallback env =
     try_except (fallback_body env)
       (\<lambda>e. if is_ImportError e then throw e else throw e)"

text \<open>The whole module: the outer handler catches \<open>ImportError\<close> only.\<close>

definition resolve :: "env \<Rightarrow> unit step" where
  "resolve env =
     try_except (primary env)
       (\<lambda>e. if is_ImportError e then fallback env else throw e)"

text \<open>
  What the statement importing this module gives its importer. When the body raises, the
  importer gets the exception and no module: the interpreter removes the module from
  \<open>sys.modules\<close> and binds nothing. Otherwise it gets the module, with its namespace.
\<close>

definition importer_view :: "(exn + unit) \<times> state \<Rightarrow> exn + (string \<rightharpoonup> pyobj)" where
  "importer_view run =
     (case run of
        (Inl e, s) \<Rightarrow> Inl e
      | (Inr u, s) \<Rightarrow> Inr (globals s))"

text \<open>The strings produced by the format expressions of a run, in order.\<close>

fun computed_names :: "event list \<Rightarrow> string list" where
  "computed_names [] = []"
| "computed_names (EvFormat str # evs) = str # computed_names evs"
| "computed_names (ev # evs) = computed_names evs"

subsection \<open>Concrete interpreters\<close>

definition cpython_39 :: version_info where
  "cpython_39 = \<lparr>major = 3, minor = 9, micro = 0, releaselevel = ''final'', serial = 0\<rparr>"

definition provider :: pyobj where
  "provider = Module [(''frame_eval_func'', Inr (Func ''frame_eval_func'')),
                      (''stop_frame_eval'', Inr (Func ''stop_frame_eval''))]"

text \<open>64-bit Linux, Python 3.9, no provider installed.\<close>

definition env_none :: env where
  "env_none =
     \<lparr>import_module = (\<lambda>name fromlist.
          if name = ''struct'' then Inr (Module []) else Inl (ImportError name)),
      sys_maxsize = Inr (9223372036854775807),
      sys_platform = ''linux'',
      sys_version_info = cpython_39\<rparr>"

text \<open>The same with the default provider installed.\<close>

definition env_default :: env where
  "env_default =
     env_none\<lparr>import_module := (\<lambda>name fromlist.
          if name = default_name then Inr provider else import_module env_none name fromlist)\<rparr>"

text \<open>
  The same with only the qualified provider installed; the import without a \<open>fromlist\<close>
  returns the package, which holds the provider as an attribute.
\<close>

definition env_qualified :: env where
  "env_qualified =
     env_none\<lparr>import_module := (\<lambda>name fromlist.
          if name = ''_pydevd_frame_eval.pydevd_frame_evaluator_linux_39_64''
          then Inr (Module [(''pydevd_frame_evaluator_linux_39_64'', Inr provider)])
          else import_module env_none name fromlist)\<rparr>"

text \<open>An interpreter whose \<open>sys\<close> has no \<open>maxsize\<close>, and no provider installed.\<close>

definition env_jython :: env where
  "env_jython = env_none\<lparr>sys_maxsize := Inl (AttributeError ''maxsize'')\<rparr>"

text \<open>A qualified provider that lacks \<open>stop_frame_eval\<close>; no default provider.\<close>

definition env_no_stop :: env where
  "env_no_stop =
     env_none\<lparr>import_module := (\<lambda>name fromlist.
          if name = ''_pydevd_frame_eval.pydevd_frame_evaluator_linux_39_64''
          then Inr (Module [(''pydevd_frame_evaluator_linux_39_64'',
                             Inr (Module [(''frame_eval_func'',
                                           Inr (Func ''frame_eval_func''))]))])
          else import_module env_none name fromlist)\<rparr>"

section \<open>Properties\<close>

subsection \<open>Unfolding the steps, and the format expressions\<close>

lemmas step_defs = ret_def throw_def lift_def seq_def try_except_def log_def store_def
  import_name_def import_from_def getattr_step_def format_step_def

lemma str_nat_digit: "n < 10 \<Longrightarrow> str_nat n = [digit n]"
  by (subst str_nat.simps) simp

lemma str_int_3: "str_int 3 = ''3''"
  by (simp add: str_int_def str_nat_digit digit_def)

lemma str_int_9: "str_int 9 = ''9''"
  by (simp add: str_int_def str_nat_digit digit_def)

lemma mod_name_of_eq:
  "mod_name_of p a b w = Inr (''pydevd_frame_evaluator_'' @ p @ ''_'' @ str_int a @ str_int b @ ''_'' @ w)"
  by (simp add: mod_name_of_def)

lemma check_name_of_eq: "check_name_of n = Inr (''_pydevd_frame_eval.'' @ n)"
  by (simp add: check_name_of_def)

subsection \<open>The primary path\<close>

lemma primary_trace:
  "primary env init_state = (r, s1) \<Longrightarrow> trace s1 = [EvImport default_name capability_names]"
  by (auto simp: primary_def step_defs init_state_def split: sum.splits if_splits)

lemma primary_failure_globals:
  "primary env init_state = (Inl e, s1) \<Longrightarrow>
     globals s1 ''stop_frame_eval'' = None
     \<and> (globals s1 ''frame_eval_func'' \<noteq> None \<longrightarrow>
          (\<exists>m f x. import_module env default_name capability_names = Inr m
             \<and> getattr m ''frame_eval_func'' = Inr f
             \<and> getattr m ''stop_frame_eval'' = Inl x))"
  by (auto simp: primary_def step_defs init_state_def split: sum.splits if_splits)

lemma primary_success_globals:
  "primary env init_state = (Inr u, s1) \<Longrightarrow>
     globals s1 ''frame_eval_func'' \<noteq> None \<and> globals s1 ''stop_frame_eval'' \<noteq> None"
  by (auto simp: primary_def step_defs init_state_def split: sum.splits if_splits)

lemma primary_error_detail:
  "primary env init_state = (Inl e, s1) \<Longrightarrow> \<not> is_ImportError e \<Longrightarrow>
     import_module env default_name capability_names = Inl e
     \<or> (\<exists>m. import_module env default_name capability_names = Inr m
           \<and> \<not> is_AttributeError e
           \<and> (getattr m ''frame_eval_func'' = Inl e
                \<or> (\<exists>f. getattr m ''frame_eval_func'' = Inr f
                      \<and> getattr m ''stop_frame_eval'' = Inl e)))"
  by (auto simp: primary_def step_defs init_state_def split: sum.splits if_splits)

lemma primary_sys_maxsize: "primary (env\<lparr>sys_maxsize := x\<rparr>) = primary env"
  by (simp add: primary_def step_defs)

subsection \<open>Runs on the concrete interpreters\<close>

lemma env_none_sys:
  "sys_maxsize env_none = Inr (9223372036854775807)"
  "sys_platform env_none = ''linux''"
  "major (sys_version_info env_none) = 3"
  "minor (sys_version_info env_none) = 9"
  "import_module env_none ''struct'' [] = Inr (Module [])"
  by (simp_all add: env_none_def cpython_39_def default_name_def)

lemma env_default_sys:
  "sys_maxsize env_default = Inr (9223372036854775807)"
  "sys_platform env_default = ''linux''"
  "major (sys_version_info env_default) = 3"
  "minor (sys_version_info env_default) = 9"
  "import_module env_default ''struct'' [] = Inr (Module [])"
  by (simp_all add: env_default_def env_none_def cpython_39_def default_name_def)

lemma env_qualified_sys:
  "sys_maxsize env_qualified = Inr (9223372036854775807)"
  "sys_platform env_qualified = ''linux''"
  "major (sys_version_info env_qualified) = 3"
  "minor (sys_version_info env_qualified) = 9"
  "import_module env_qualified ''struct'' [] = Inr (Module [])"
  by (simp_all add: env_qualified_def env_none_def cpython_39_def default_name_def)

lemma env_jython_sys:
  "sys_maxsize env_jython = Inl (AttributeError ''maxsize'')"
  "sys_platform env_jython = ''linux''"
  "major (sys_version_info env_jython) = 3"
  "minor (sys_version_info env_jython) = 9"
  "import_module env_jython ''struct'' [] = Inr (Module [])"
  by (simp_all add: env_jython_def env_none_def cpython_39_def default_name_def)

lemma env_no_stop_sys:
  "sys_maxsize env_no_stop = Inr (9223372036854775807)"
  "sys_platform env_no_stop = ''linux''"
  "major (sys_version_info env_no_stop) = 3"
  "minor (sys_version_info env_no_stop) = 9"
  "import_module env_no_stop ''struct'' [] = Inr (Module [])"
  by (simp_all add: env_no_stop_def env_none_def cpython_39_def default_name_def)

lemma primary_env_none:
  "primary env_none init_state =
     (Inl (ImportError default_name),
      \<lparr>globals = Map.empty, trace = [EvImport default_name capability_names]\<rparr>)"
  by (simp add: primary_def step_defs init_state_def env_none_def default_name_def)

lemma primary_env_qualified:
  "primary env_qualified init_state =
     (Inl (ImportError default_name),
      \<lparr>globals = Map.empty, trace = [EvImport default_name capability_names]\<rparr>)"
  by (simp add: primary_def step_defs init_state_def env_qualified_def env_none_def
      default_name_def)

lemma primary_env_jython:
  "primary env_jython init_state =
     (Inl (ImportError default_name),
      \<lparr>globals = Map.empty, trace = [EvImport default_name capability_names]\<rparr>)"
  by (simp add: primary_def step_defs init_state_def env_jython_def env_none_def
      default_name_def)

lemma primary_env_no_stop:
  "primary env_no_stop init_state =
     (Inl (ImportError default_name),
      \<lparr>globals = Map.empty, trace = [EvImport default_name capability_names]\<rparr>)"
  by (simp add: primary_def step_defs init_state_def env_no_stop_def env_none_def
      default_name_def)

lemma mod_name_linux_39_64:
  "mod_name_of ''linux'' 3 9 ''64'' = Inr ''pydevd_frame_evaluator_linux_39_64''"
  by (simp add: mod_name_of_eq str_int_3 str_int_9)

lemma check_name_linux_39_64:
  "check_name_of ''pydevd_frame_evaluator_linux_39_64'' =
     Inr ''_pydevd_frame_eval.pydevd_frame_evaluator_linux_39_64''"
  by (simp add: check_name_of_eq)

lemma plat_64: "plat_of (is_64bits_of (9223372036854775807)) = ''64''"
  by (simp add: plat_of_def is_64bits_of_def)

lemma qualified_import_env_none:
  "import_module env_none ''_pydevd_frame_eval.pydevd_frame_evaluator_linux_39_64'' [] =
     Inl (ImportError ''_pydevd_frame_eval.pydevd_frame_evaluator_linux_39_64'')"
  by (simp add: env_none_def)

lemma qualified_import_env_qualified:
  "import_module env_qualified ''_pydevd_frame_eval.pydevd_frame_evaluator_linux_39_64'' [] =
     Inr (Module [(''pydevd_frame_evaluator_linux_39_64'', Inr provider)])"
  by (simp add: env_qualified_def)

lemma qualified_import_env_no_stop:
  "import_module env_no_stop ''_pydevd_frame_eval.pydevd_frame_evaluator_linux_39_64'' [] =
     Inr (Module [(''pydevd_frame_evaluator_linux_39_64'',
                   Inr (Module [(''frame_eval_func'', Inr (Func ''frame_eval_func''))]))])"
  by (simp add: env_no_stop_def)

lemmas fallback_defs = resolve_def fallback_def fallback_body_def query_bitness_def step_defs
  mod_name_linux_39_64 check_name_linux_39_64 plat_64

lemma resolve_env_none:
  "resolve env_none init_state =
     (Inl (ImportError ''_pydevd_frame_eval.pydevd_frame_evaluator_linux_39_64''),
      \<lparr>globals = Map.empty,
       trace = [EvImport default_name capability_names, EvImport ''struct'' [],
                EvImport ''sys'' [], EvMaxsize,
                EvFormat ''pydevd_frame_evaluator_linux_39_64'',
                EvFormat ''_pydevd_frame_eval.pydevd_frame_evaluator_linux_39_64'',
                EvImport ''_pydevd_frame_eval.pydevd_frame_evaluator_linux_39_64'' []]\<rparr>)"
  by (simp add: fallback_defs primary_env_none env_none_sys qualified_import_env_none)

lemma default_import_env_none:
  "import_module env_none default_name capability_names = Inl (ImportError default_name)"
  by (simp add: env_none_def default_name_def)

lemma resolve_env_jython:
  "resolve env_jython init_state =
     (Inl (WithContext (ImportError []) (AttributeError ''maxsize'')),
      \<lparr>globals = Map.empty,
       trace = [EvImport default_name capability_names, EvImport ''struct'' [],
                EvImport ''sys'' [], EvMaxsize]\<rparr>)"
  by (simp add: fallback_defs primary_env_jython env_jython_sys)

lemma resolve_env_qualified:
  "resolve env_qualified init_state =
     (Inr (),
      \<lparr>globals = [''frame_eval_func'' \<mapsto> Func ''frame_eval_func'',
                   ''stop_frame_eval'' \<mapsto> Func ''stop_frame_eval''],
       trace = [EvImport default_name capability_names, EvImport ''struct'' [],
                EvImport ''sys'' [], EvMaxsize,
                EvFormat ''pydevd_frame_evaluator_linux_39_64'',
                EvFormat ''_pydevd_frame_eval.pydevd_frame_evaluator_linux_39_64'',
                EvImport ''_pydevd_frame_eval.pydevd_frame_evaluator_linux_39_64'' [],
                EvGetattr ''pydevd_frame_evaluator_linux_39_64'',
                EvGetattr ''frame_eval_func'', EvGetattr ''stop_frame_eval'']\<rparr>)"
  by (simp add: fallback_defs primary_env_qualified env_qualified_sys
      qualified_import_env_qualified provider_def)

lemma resolve_env_no_stop:
  "resolve env_no_stop init_state =
     (Inl (AttributeError ''stop_frame_eval''),
      \<lparr>globals = Map.empty,
       trace = [EvImport default_name capability_names, EvImport ''struct'' [],
                EvImport ''sys'' [], EvMaxsize,
                EvFormat ''pydevd_frame_evaluator_linux_39_64'',
                EvFormat ''_pydevd_frame_eval.pydevd_frame_evaluator_linux_39_64'',
                EvImport ''_pydevd_frame_eval.pydevd_frame_evaluator_linux_39_64'' [],
                EvGetattr ''pydevd_frame_evaluator_linux_39_64'',
                EvGetattr ''frame_eval_func'', EvGetattr ''stop_frame_eval'']\<rparr>)"
  by (simp add: fallback_defs primary_env_no_stop env_no_stop_sys
      qualified_import_env_no_stop)

subsection \<open>The outcome of the fallback path\<close>

lemma resolve_fallback:
  "primary env init_state = (Inl e, s1) \<Longrightarrow> is_ImportError e \<Longrightarrow>
     resolve env init_state = fallback env s1"
  by (simp add: resolve_def try_except_def)

lemma resolve_no_fallback:
  "primary env init_state = (Inl e, s1) \<Longrightarrow> \<not> is_ImportError e \<Longrightarrow>
     resolve env init_state = (Inl e, s1)"
  by (simp add: resolve_def try_except_def throw_def)

lemma resolve_primary_ok:
  "primary env init_state = (Inr u, s1) \<Longrightarrow> resolve env init_state = (Inr u, s1)"
  by (simp add: resolve_def try_except_def)

lemma fallback_struct_fails:
  "import_module env ''struct'' [] = Inl e \<Longrightarrow>
     fallback env s1 = (Inl e, s1\<lparr>trace := trace s1 @ [EvImport ''struct'' []]\<rparr>)"
  by (simp add: fallback_def fallback_body_def step_defs)

lemma fallback_maxsize_fails:
  "import_module env ''struct'' [] = Inr struct \<Longrightarrow> sys_maxsize env = Inl q \<Longrightarrow>
     fallback env s1 =
       (Inl (WithContext (ImportError []) q),
        s1\<lparr>trace := trace s1 @ [EvImport ''struct'' [], EvImport ''sys'' [], EvMaxsize]\<rparr>)"
  by (simp add: fallback_def fallback_body_def query_bitness_def step_defs)

lemma fallback_result:
  assumes "import_module env ''struct'' [] = Inr struct"
      and "sys_maxsize env = Inr maxsize"
      and "mod_name_of (sys_platform env) (major (sys_version_info env))
             (minor (sys_version_info env)) (plat_of (is_64bits_of maxsize)) = Inr N"
      and "check_name_of N = Inr K"
  shows "fallback env s1 =
     (case import_module env K [] of
        Inl e \<Rightarrow>
          (Inl e, s1\<lparr>trace := trace s1 @ [EvImport ''struct'' [], EvImport ''sys'' [],
                     EvMaxsize, EvFormat N, EvFormat K, EvImport K []]\<rparr>)
      | Inr pkg \<Rightarrow>
          (case getattr pkg N of
             Inl e \<Rightarrow>
               (Inl e, s1\<lparr>trace := trace s1 @ [EvImport ''struct'' [], EvImport ''sys'' [],
                          EvMaxsize, EvFormat N, EvFormat K, EvImport K [],
                          EvGetattr N]\<rparr>)
           | Inr prov \<Rightarrow>
               (case getattr prov ''frame_eval_func'' of
                  Inl e \<Rightarrow>
                    (Inl e, s1\<lparr>trace := trace s1 @ [EvImport ''struct'' [],
                               EvImport ''sys'' [], EvMaxsize, EvFormat N, EvFormat K,
                               EvImport K [], EvGetattr N,
                               EvGetattr ''frame_eval_func'']\<rparr>)
                | Inr f \<Rightarrow>
                    (case getattr prov ''stop_frame_eval'' of
                       Inl e \<Rightarrow>
                         (Inl e, s1\<lparr>trace := trace s1 @ [EvImport ''struct'' [],
                                    EvImport ''sys'' [], EvMaxsize, EvFormat N, EvFormat K,
                                    EvImport K [], EvGetattr N,
                                    EvGetattr ''frame_eval_func'',
                                    EvGetattr ''stop_frame_eval'']\<rparr>)
                     | Inr g \<Rightarrow>
                         (Inr (),
                          \<lparr>globals = (globals s1)(''frame_eval_func'' \<mapsto> f,
                                        ''stop_frame_eval'' \<mapsto> g),
                           trace = trace s1 @ [EvImport ''struct'' [],
                                    EvImport ''sys'' [], EvMaxsize, EvFormat N, EvFormat K,
                                    EvImport K [], EvGetattr N,
                                    EvGetattr ''frame_eval_func'',
                                    EvGetattr ''stop_frame_eval'']\<rparr>)))))"
  using assms
  by (simp add: fallback_def fallback_body_def query_bitness_def step_defs
      split: sum.splits)

lemma fallback_computed_names:
  assumes "import_module env ''struct'' [] = Inr struct"
      and "sys_maxsize env = Inr maxsize"
      and "mod_name_of (sys_platform env) (major (sys_version_info env))
             (minor (sys_version_info env)) (plat_of (is_64bits_of maxsize)) = Inr N"
      and "check_name_of N = Inr K"
      and "trace s1 = [EvImport default_name capability_names]"
  shows "computed_names (trace (snd (fallback env s1))) = [N, K]
         \<and> EvImport K [] \<in> set (trace (snd (fallback env s1)))"
  using assms(5)
  by (simp add: fallback_result [OF assms(1-4)] split: sum.splits)

lemma fallback_globals:
  assumes "fallback env s1 = (r, s)"
  shows "(\<forall>e. r = Inl e \<longrightarrow> globals s = globals s1)
         \<and> (\<forall>u. r = Inr u \<longrightarrow>
               globals s ''frame_eval_func'' \<noteq> None \<and> globals s ''stop_frame_eval'' \<noteq> None)"
proof (cases "import_module env ''struct'' []")
  case (Inl e)
  from assms show ?thesis by (auto simp: fallback_struct_fails [OF Inl])
next
  case st: (Inr struct)
  show ?thesis
  proof (cases "sys_maxsize env")
    case (Inl q)
    from assms show ?thesis by (auto simp: fallback_maxsize_fails [OF st Inl])
  next
    case mx: (Inr maxsize)
    obtain N where mn: "mod_name_of (sys_platform env) (major (sys_version_info env))
             (minor (sys_version_info env)) (plat_of (is_64bits_of maxsize)) = Inr N"
      using mod_name_of_eq by blast
    obtain K where cn: "check_name_of N = Inr K"
      using check_name_of_eq by blast
    from assms show ?thesis
      by (auto simp: fallback_result [OF st mx mn cn] split: sum.splits)
  qed
qed

lemma fallback_error:
  assumes "fallback env s1 = (Inl e, s)"
      and "trace s1 = [EvImport default_name capability_names]"
  shows "is_ImportError e
         \<or> (\<exists>name fromlist. last (trace s) = EvImport name fromlist
               \<and> import_module env name fromlist = Inl e)
         \<or> (\<exists>mod_name check_name pkg.
               computed_names (trace s) = [mod_name, check_name]
               \<and> import_module env check_name [] = Inr pkg
               \<and> (last (trace s) = EvGetattr mod_name
                      \<and> getattr pkg mod_name = Inl e
                    \<or> (\<exists>prov. getattr pkg mod_name = Inr prov
                          \<and> (last (trace s) = EvGetattr ''frame_eval_func''
                                \<and> getattr prov ''frame_eval_func'' = Inl e
                              \<or> (\<exists>f. getattr prov ''frame_eval_func'' = Inr f
                                    \<and> last (trace s) = EvGetattr ''stop_frame_eval''
                                    \<and> getattr prov ''stop_frame_eval'' = Inl e)))))"
proof (cases "import_module env ''struct'' []")
  case (Inl e')
  from assms Inl show ?thesis by (auto simp: fallback_struct_fails [OF Inl])
next
  case st: (Inr struct)
  show ?thesis
  proof (cases "sys_maxsize env")
    case (Inl q)
    from assms show ?thesis by (auto simp: fallback_maxsize_fails [OF st Inl])
  next
    case mx: (Inr maxsize)
    obtain N where mn: "mod_name_of (sys_platform env) (major (sys_version_info env))
             (minor (sys_version_info env)) (plat_of (is_64bits_of maxsize)) = Inr N"
      using mod_name_of_eq by blast
    obtain K where cn: "check_name_of N = Inr K"
      using check_name_of_eq by blast
    from assms show ?thesis
      by (auto simp: fallback_result [OF st mx mn cn] split: sum.splits)
  qed
qed

subsection \<open>The qualified name\<close>

text \<open>
  C1. For every platform string, major and minor version number and pointer-width marker,
  the provider name computed on line 24 is the fixed prefix \<open>pydevd_frame_evaluator\<close>
  followed by \<open>_\<close>, the platform, \<open>_\<close>, the major and minor numbers in decimal, \<open>_\<close> and the
  marker; the lookup key computed from it on line 25 is that name after the namespace
  \<open>_pydevd_frame_eval.\<close>. Neither format expression raises.
\<close>

theorem qualified_name_format:
  "mod_name_of platform v0 v1 width =
     Inr (''pydevd_frame_evaluator'' @ ''_'' @ platform @ ''_'' @ str_int v0 @ str_int v1
          @ ''_'' @ width)
   \<and> check_name_of (''pydevd_frame_evaluator'' @ ''_'' @ platform @ ''_'' @ str_int v0
          @ str_int v1 @ ''_'' @ width) =
     Inr (''_pydevd_frame_eval.'' @ ''pydevd_frame_evaluator'' @ ''_'' @ platform @ ''_''
          @ str_int v0 @ str_int v1 @ ''_'' @ width)"
  by (simp add: mod_name_of_def check_name_of_def)

text \<open>
  C2, as the module computes it. On Linux with Python 3.9 and a maximum container size
  above \<open>2^32\<close>, when the primary path raises \<open>ImportError\<close> (and \<open>struct\<close> imports), the
  provider name computed is \<open>pydevd_frame_evaluator_linux_39_64\<close> and the lookup key
  computed and imported is \<open>_pydevd_frame_eval.pydevd_frame_evaluator_linux_39_64\<close>, with an
  underscore between the version digits and the marker.
\<close>

theorem linux_39_lookup_key:
  assumes "primary env init_state = (Inl e, s1)"
      and "is_ImportError e"
      and "import_module env ''struct'' [] = Inr struct"
      and "sys_platform env = ''linux''"
      and "major (sys_version_info env) = 3"
      and "minor (sys_version_info env) = 9"
      and "sys_maxsize env = Inr maxsize"
      and "maxsize > 2 ^ 32"
  shows "computed_names (trace (snd (resolve env init_state))) =
           [''pydevd_frame_evaluator_linux_39_64'',
            ''_pydevd_frame_eval.pydevd_frame_evaluator_linux_39_64'']
         \<and> EvImport ''_pydevd_frame_eval.pydevd_frame_evaluator_linux_39_64'' []
             \<in> set (trace (snd (resolve env init_state)))"
proof -
  have mn: "mod_name_of (sys_platform env) (major (sys_version_info env))
             (minor (sys_version_info env)) (plat_of (is_64bits_of maxsize)) =
            Inr ''pydevd_frame_evaluator_linux_39_64''"
    using assms(4-6,8) by (simp add: mod_name_linux_39_64 plat_of_def is_64bits_of_def)
  from fallback_computed_names [OF assms(3) assms(7) mn check_name_linux_39_64
      primary_trace [OF assms(1)]]
  show ?thesis
    by (simp add: resolve_fallback [OF assms(1,2)])
qed

theorem linux_39_lookup_key_witness:
  "primary env_none init_state =
     (Inl (ImportError default_name),
      \<lparr>globals = Map.empty, trace = [EvImport default_name capability_names]\<rparr>)
   \<and> is_ImportError (ImportError default_name)
   \<and> import_module env_none ''struct'' [] = Inr (Module [])
   \<and> sys_platform env_none = ''linux''
   \<and> major (sys_version_info env_none) = 3
   \<and> minor (sys_version_info env_none) = 9
   \<and> sys_maxsize env_none = Inr 9223372036854775807
   \<and> (9223372036854775807 :: int) > 2 ^ 32
   \<and> computed_names (trace (snd (resolve env_none init_state))) =
        [''pydevd_frame_evaluator_linux_39_64'',
         ''_pydevd_frame_eval.pydevd_frame_evaluator_linux_39_64'']
   \<and> EvImport ''_pydevd_frame_eval.pydevd_frame_evaluator_linux_39_64'' []
        \<in> set (trace (snd (resolve env_none init_state)))"
proof -
  have h2: "is_ImportError (ImportError default_name)" by simp
  have h8: "(9223372036854775807 :: int) > 2 ^ 32" by simp
  from linux_39_lookup_key [OF primary_env_none h2 env_none_sys(5) env_none_sys(2)
      env_none_sys(3) env_none_sys(4) env_none_sys(1) h8]
  show ?thesis using primary_env_none env_none_sys by simp
qed

text \<open>
  The key of the scenario as the specification writes it, without that underscore, is not
  what the module computes: on such an interpreter with the qualified provider installed,
  resolution succeeds and the key is never formed.
\<close>

theorem lookup_key_3964_counterexample:
  "sys_platform env_qualified = ''linux''
   \<and> major (sys_version_info env_qualified) = 3
   \<and> minor (sys_version_info env_qualified) = 9
   \<and> sys_maxsize env_qualified = Inr 9223372036854775807
   \<and> fst (primary env_qualified init_state) = Inl (ImportError default_name)
   \<and> fst (resolve env_qualified init_state) = Inr ()
   \<and> computed_names (trace (snd (resolve env_qualified init_state))) =
        [''pydevd_frame_evaluator_linux_39_64'',
         ''_pydevd_frame_eval.pydevd_frame_evaluator_linux_39_64'']
   \<and> ''_pydevd_frame_eval.pydevd_frame_evaluator_linux_3964''
        \<notin> set (computed_names (trace (snd (resolve env_qualified init_state))))"
  by (simp add: resolve_env_qualified primary_env_qualified env_qualified_sys)

text \<open>
  C5. On the fallback path (the primary path raised \<open>ImportError\<close>, \<open>struct\<close> imports and
  \<open>sys.maxsize\<close> is read as \<open>maxsize\<close>), the marker that ends the provider name which the
  run formats, and so the lookup key, is \<open>64\<close> if \<open>maxsize\<close> is strictly greater than \<open>2^32\<close>
  and \<open>32\<close> otherwise; the marker is \<open>64\<close> exactly when the comparison holds, \<open>32\<close> exactly
  when it does not, and nothing else.
\<close>

theorem fallback_plat_marker:
  assumes "primary env init_state = (Inl e, s1)"
      and "is_ImportError e"
      and "import_module env ''struct'' [] = Inr struct"
      and "sys_maxsize env = Inr maxsize"
  shows "computed_names (trace (snd (resolve env init_state))) =
           [''pydevd_frame_evaluator_'' @ sys_platform env @ ''_''
              @ str_int (major (sys_version_info env)) @ str_int (minor (sys_version_info env))
              @ ''_'' @ (if maxsize > 2 ^ 32 then ''64'' else ''32''),
            ''_pydevd_frame_eval.pydevd_frame_evaluator_'' @ sys_platform env @ ''_''
              @ str_int (major (sys_version_info env)) @ str_int (minor (sys_version_info env))
              @ ''_'' @ (if maxsize > 2 ^ 32 then ''64'' else ''32'')]
         \<and> (plat_of (is_64bits_of maxsize) = ''64'') = (maxsize > 2 ^ 32)
         \<and> (plat_of (is_64bits_of maxsize) = ''32'') = (\<not> maxsize > 2 ^ 32)
         \<and> (plat_of (is_64bits_of maxsize) = ''64'' \<or> plat_of (is_64bits_of maxsize) = ''32'')"
proof -
  have mn: "mod_name_of (sys_platform env) (major (sys_version_info env))
             (minor (sys_version_info env)) (plat_of (is_64bits_of maxsize)) =
            Inr (''pydevd_frame_evaluator_'' @ sys_platform env @ ''_''
              @ str_int (major (sys_version_info env)) @ str_int (minor (sys_version_info env))
              @ ''_'' @ (if maxsize > 2 ^ 32 then ''64'' else ''32''))"
    by (simp add: mod_name_of_eq plat_of_def is_64bits_of_def)
  have cn: "check_name_of (''pydevd_frame_evaluator_'' @ sys_platform env @ ''_''
              @ str_int (major (sys_version_info env)) @ str_int (minor (sys_version_info env))
              @ ''_'' @ (if maxsize > 2 ^ 32 then ''64'' else ''32'')) =
            Inr (''_pydevd_frame_eval.pydevd_frame_evaluator_'' @ sys_platform env @ ''_''
              @ str_int (major (sys_version_info env)) @ str_int (minor (sys_version_info env))
              @ ''_'' @ (if maxsize > 2 ^ 32 then ''64'' else ''32''))"
    by (simp add: check_name_of_eq)
  have names: "computed_names (trace (snd (resolve env init_state))) =
           [''pydevd_frame_evaluator_'' @ sys_platform env @ ''_''
              @ str_int (major (sys_version_info env)) @ str_int (minor (sys_version_info env))
              @ ''_'' @ (if maxsize > 2 ^ 32 then ''64'' else ''32''),
            ''_pydevd_frame_eval.pydevd_frame_evaluator_'' @ sys_platform env @ ''_''
              @ str_int (major (sys_version_info env)) @ str_int (minor (sys_version_info env))
              @ ''_'' @ (if maxsize > 2 ^ 32 then ''64'' else ''32'')]"
    using fallback_computed_names [OF assms(3) assms(4) mn cn primary_trace [OF assms(1)]]
    by (simp only: resolve_fallback [OF assms(1,2)])
  have marker: "(plat_of (is_64bits_of maxsize) = ''64'') = (maxsize > 2 ^ 32)
         \<and> (plat_of (is_64bits_of maxsize) = ''32'') = (\<not> maxsize > 2 ^ 32)
         \<and> (plat_of (is_64bits_of maxsize) = ''64'' \<or> plat_of (is_64bits_of maxsize) = ''32'')"
    by (simp add: plat_of_def is_64bits_of_def)
  from names marker show ?thesis by (rule conjI)
qed

theorem fallback_plat_marker_witness:
  "primary env_none init_state =
     (Inl (ImportError default_name),
      \<lparr>globals = Map.empty, trace = [EvImport default_name capability_names]\<rparr>)
   \<and> is_ImportError (ImportError default_name)
   \<and> import_module env_none ''struct'' [] = Inr (Module [])
   \<and> sys_maxsize env_none = Inr 9223372036854775807
   \<and> computed_names (trace (snd (resolve env_none init_state))) =
        [''pydevd_frame_evaluator_linux_39_64'',
         ''_pydevd_frame_eval.pydevd_frame_evaluator_linux_39_64'']
   \<and> plat_of (is_64bits_of 9223372036854775807) = ''64''"
proof -
  have h2: "is_ImportError (ImportError default_name)" by simp
  from fallback_plat_marker [OF primary_env_none h2 env_none_sys(5) env_none_sys(1)]
  show ?thesis
    using primary_env_none env_none_sys by (simp add: str_int_3 str_int_9)
qed

subsection \<open>The primary path taken\<close>

text \<open>
  C3. If the import of the default-named module succeeds and the module has both
  attributes, the run consists of that one import: the maximum container size is not
  queried, no name is formatted, and the run ends normally with both names bound to the
  attributes of the default provider.
\<close>

theorem default_provider_no_fallback:
  assumes "import_module env default_name capability_names = Inr m"
      and "getattr m ''frame_eval_func'' = Inr f"
      and "getattr m ''stop_frame_eval'' = Inr g"
  shows "resolve env init_state =
           (Inr (), \<lparr>globals = [''frame_eval_func'' \<mapsto> f, ''stop_frame_eval'' \<mapsto> g],
                     trace = [EvImport default_name capability_names]\<rparr>)
         \<and> EvMaxsize \<notin> set (trace (snd (resolve env init_state)))
         \<and> computed_names (trace (snd (resolve env init_state))) = []"
  using assms by (simp add: resolve_def primary_def step_defs init_state_def)

theorem default_provider_no_fallback_witness:
  "import_module env_default default_name capability_names = Inr provider
   \<and> getattr provider ''frame_eval_func'' = Inr (Func ''frame_eval_func'')
   \<and> getattr provider ''stop_frame_eval'' = Inr (Func ''stop_frame_eval'')
   \<and> resolve env_default init_state =
           (Inr (), \<lparr>globals = [''frame_eval_func'' \<mapsto> Func ''frame_eval_func'',
                                  ''stop_frame_eval'' \<mapsto> Func ''stop_frame_eval''],
                     trace = [EvImport default_name capability_names]\<rparr>)"
proof -
  have h1: "import_module env_default default_name capability_names = Inr provider"
    by (simp add: env_default_def)
  have h2: "getattr provider ''frame_eval_func'' = Inr (Func ''frame_eval_func'')"
    by (simp add: provider_def)
  have h3: "getattr provider ''stop_frame_eval'' = Inr (Func ''stop_frame_eval'')"
    by (simp add: provider_def)
  from default_provider_no_fallback [OF h1 h2 h3] h1 h2 h3 show ?thesis by simp
qed

subsection \<open>The fallback path\<close>

text \<open>
  C4. If the primary path raised \<open>ImportError\<close> and, on the fallback path, the read of the
  maximum container size raises (whatever the exception), the run ends at that query with
  the \<open>ImportError\<close> of line 11: the operations performed are the default import, the
  imports of \<open>struct\<close> and \<open>sys\<close> and the query; no name is formatted and no further import
  is made.
\<close>

theorem bitness_failure_stops:
  assumes "primary env init_state = (Inl e, s1)"
      and "is_ImportError e"
      and "import_module env ''struct'' [] = Inr struct"
      and "sys_maxsize env = Inl q"
  shows "resolve env init_state =
           (Inl (WithContext (ImportError []) q),
            s1\<lparr>trace := [EvImport default_name capability_names, EvImport ''struct'' [],
                          EvImport ''sys'' [], EvMaxsize]\<rparr>)
         \<and> is_ImportError (WithContext (ImportError []) q)"
  using assms primary_trace [OF assms(1)]
  by (simp add: resolve_def fallback_def fallback_body_def query_bitness_def step_defs)

theorem bitness_failure_stops_witness:
  "primary env_jython init_state =
     (Inl (ImportError default_name),
      \<lparr>globals = Map.empty, trace = [EvImport default_name capability_names]\<rparr>)
   \<and> is_ImportError (ImportError default_name)
   \<and> import_module env_jython ''struct'' [] = Inr (Module [])
   \<and> sys_maxsize env_jython = Inl (AttributeError ''maxsize'')
   \<and> resolve env_jython init_state =
        (Inl (WithContext (ImportError []) (AttributeError ''maxsize'')),
         \<lparr>globals = Map.empty,
          trace = [EvImport default_name capability_names, EvImport ''struct'' [],
                   EvImport ''sys'' [], EvMaxsize]\<rparr>)"
proof -
  have h2: "is_ImportError (ImportError default_name)" by simp
  from bitness_failure_stops [OF primary_env_jython h2 env_jython_sys(5) env_jython_sys(1)]
  show ?thesis using primary_env_jython env_jython_sys by simp
qed

text \<open>
  C7. If the primary path raised \<open>ImportError\<close> and the import of the computed lookup key
  raises, the run ends with exactly that exception. The failed import is the last
  operation (nothing else is tried), and the module namespace is what the primary path
  left: nothing is bound in place of the missing functions, and \<open>stop_frame_eval\<close> is unbound.
\<close>

theorem fallback_import_failure_reraised:
  assumes "primary env init_state = (Inl e, s1)"
      and "is_ImportError e"
      and "import_module env ''struct'' [] = Inr struct"
      and "sys_maxsize env = Inr maxsize"
      and "mod_name_of (sys_platform env) (major (sys_version_info env))
             (minor (sys_version_info env)) (plat_of (is_64bits_of maxsize)) = Inr mod_name"
      and "check_name_of mod_name = Inr check_name"
      and "import_module env check_name [] = Inl e'"
  shows "resolve env init_state =
           (Inl e',
            s1\<lparr>trace := [EvImport default_name capability_names, EvImport ''struct'' [],
                          EvImport ''sys'' [], EvMaxsize, EvFormat mod_name,
                          EvFormat check_name, EvImport check_name []]\<rparr>)
         \<and> globals (snd (resolve env init_state)) = globals s1
         \<and> globals (snd (resolve env init_state)) ''stop_frame_eval'' = None"
  using assms primary_trace [OF assms(1)] primary_failure_globals [OF assms(1)]
  by (simp add: resolve_def fallback_def fallback_body_def query_bitness_def step_defs)

theorem fallback_import_failure_reraised_witness:
  "primary env_none init_state =
     (Inl (ImportError default_name),
      \<lparr>globals = Map.empty, trace = [EvImport default_name capability_names]\<rparr>)
   \<and> is_ImportError (ImportError default_name)
   \<and> import_module env_none ''struct'' [] = Inr (Module [])
   \<and> sys_maxsize env_none = Inr 9223372036854775807
   \<and> mod_name_of (sys_platform env_none) (major (sys_version_info env_none))
        (minor (sys_version_info env_none)) (plat_of (is_64bits_of 9223372036854775807)) =
      Inr ''pydevd_frame_evaluator_linux_39_64''
   \<and> check_name_of ''pydevd_frame_evaluator_linux_39_64'' =
      Inr ''_pydevd_frame_eval.pydevd_frame_evaluator_linux_39_64''
   \<and> import_module env_none ''_pydevd_frame_eval.pydevd_frame_evaluator_linux_39_64'' [] =
      Inl (ImportError ''_pydevd_frame_eval.pydevd_frame_evaluator_linux_39_64'')
   \<and> fst (resolve env_none init_state) =
      Inl (ImportError ''_pydevd_frame_eval.pydevd_frame_evaluator_linux_39_64'')
   \<and> globals (snd (resolve env_none init_state)) ''stop_frame_eval'' = None"
proof -
  have h2: "is_ImportError (ImportError default_name)" by simp
  have h5: "mod_name_of (sys_platform env_none) (major (sys_version_info env_none))
        (minor (sys_version_info env_none)) (plat_of (is_64bits_of 9223372036854775807)) =
      Inr ''pydevd_frame_evaluator_linux_39_64''"
    by (simp add: env_none_sys plat_64 mod_name_linux_39_64)
  from fallback_import_failure_reraised [OF primary_env_none h2 env_none_sys(5)
      env_none_sys(1) h5 check_name_linux_39_64 qualified_import_env_none]
  show ?thesis
    using primary_env_none env_none_sys h5 check_name_linux_39_64 qualified_import_env_none
    by simp
qed

text \<open>
  C9. If the primary path raised \<open>ImportError\<close>, the name and key are computed, the import of
  the key returns an object whose attribute named by the provider name is a provider with
  both functions, then the run ends normally, with both names bound to the functions of
  that provider.
\<close>

theorem qualified_provider_resolves:
  assumes "primary env init_state = (Inl e, s1)"
      and "is_ImportError e"
      and "import_module env ''struct'' [] = Inr struct"
      and "sys_maxsize env = Inr maxsize"
      and "mod_name_of (sys_platform env) (major (sys_version_info env))
             (minor (sys_version_info env)) (plat_of (is_64bits_of maxsize)) = Inr mod_name"
      and "check_name_of mod_name = Inr check_name"
      and "import_module env check_name [] = Inr pkg"
      and "getattr pkg mod_name = Inr prov"
      and "getattr prov ''frame_eval_func'' = Inr f"
      and "getattr prov ''stop_frame_eval'' = Inr g"
  shows "resolve env init_state =
           (Inr (),
            \<lparr>globals = (globals s1)(''frame_eval_func'' \<mapsto> f, ''stop_frame_eval'' \<mapsto> g),
             trace = [EvImport default_name capability_names, EvImport ''struct'' [],
                      EvImport ''sys'' [], EvMaxsize, EvFormat mod_name,
                      EvFormat check_name, EvImport check_name [], EvGetattr mod_name,
                      EvGetattr ''frame_eval_func'', EvGetattr ''stop_frame_eval'']\<rparr>)"
  using assms primary_trace [OF assms(1)]
  by (simp add: resolve_def fallback_def fallback_body_def query_bitness_def step_defs)

theorem qualified_provider_resolves_witness:
  "primary env_qualified init_state =
     (Inl (ImportError default_name),
      \<lparr>globals = Map.empty, trace = [EvImport default_name capability_names]\<rparr>)
   \<and> is_ImportError (ImportError default_name)
   \<and> import_module env_qualified ''struct'' [] = Inr (Module [])
   \<and> sys_maxsize env_qualified = Inr 9223372036854775807
   \<and> mod_name_of (sys_platform env_qualified) (major (sys_version_info env_qualified))
        (minor (sys_version_info env_qualified))
        (plat_of (is_64bits_of 9223372036854775807)) =
      Inr ''pydevd_frame_evaluator_linux_39_64''
   \<and> check_name_of ''pydevd_frame_evaluator_linux_39_64'' =
      Inr ''_pydevd_frame_eval.pydevd_frame_evaluator_linux_39_64''
   \<and> import_module env_qualified
        ''_pydevd_frame_eval.pydevd_frame_evaluator_linux_39_64'' [] =
      Inr (Module [(''pydevd_frame_evaluator_linux_39_64'', Inr provider)])
   \<and> getattr (Module [(''pydevd_frame_evaluator_linux_39_64'', Inr provider)])
        ''pydevd_frame_evaluator_linux_39_64'' = Inr provider
   \<and> getattr provider ''frame_eval_func'' = Inr (Func ''frame_eval_func'')
   \<and> getattr provider ''stop_frame_eval'' = Inr (Func ''stop_frame_eval'')
   \<and> fst (resolve env_qualified init_state) = Inr ()
   \<and> globals (snd (resolve env_qualified init_state)) =
        [''frame_eval_func'' \<mapsto> Func ''frame_eval_func'',
         ''stop_frame_eval'' \<mapsto> Func ''stop_frame_eval'']"
proof -
  have h2: "is_ImportError (ImportError default_name)" by simp
  have h5: "mod_name_of (sys_platform env_qualified) (major (sys_version_info env_qualified))
        (minor (sys_version_info env_qualified))
        (plat_of (is_64bits_of 9223372036854775807)) =
      Inr ''pydevd_frame_evaluator_linux_39_64''"
    by (simp add: env_qualified_sys plat_64 mod_name_linux_39_64)
  have h8: "getattr (Module [(''pydevd_frame_evaluator_linux_39_64'', Inr provider)])
        ''pydevd_frame_evaluator_linux_39_64'' = Inr provider"
    by simp
  have h9: "getattr provider ''frame_eval_func'' = Inr (Func ''frame_eval_func'')"
    by (simp add: provider_def)
  have h10: "getattr provider ''stop_frame_eval'' = Inr (Func ''stop_frame_eval'')"
    by (simp add: provider_def)
  from qualified_provider_resolves [OF primary_env_qualified h2 env_qualified_sys(5)
      env_qualified_sys(1) h5 check_name_linux_39_64 qualified_import_env_qualified
      h8 h9 h10]
  show ?thesis
    using primary_env_qualified env_qualified_sys h5 check_name_linux_39_64
      qualified_import_env_qualified h8 h9 h10
    by simp
qed

text \<open>
  C10, as the module behaves. Whatever exception the read of the maximum container size
  raises on the fallback path, the bare \<open>except\<close> raises a new \<open>ImportError\<close> without
  message in its place, and that is what the run ends with: its class is the class that
  the failure of a missing module has, so a handler for \<open>ImportError\<close> takes both. It is
  not the same exception, though: it has no message, and it keeps the replaced exception
  as its context. Apart from that context, the run does not depend on which exception was
  replaced.
\<close>

theorem bitness_exception_replaced:
  assumes "primary env init_state = (Inl e, s1)"
      and "is_ImportError e"
      and "import_module env ''struct'' [] = Inr struct"
  shows "fst (resolve (env\<lparr>sys_maxsize := Inl q\<rparr>) init_state) =
           Inl (WithContext (ImportError []) q)
         \<and> is_ImportError (WithContext (ImportError []) q)
         \<and> snd (resolve (env\<lparr>sys_maxsize := Inl q\<rparr>) init_state) =
           snd (resolve (env\<lparr>sys_maxsize := Inl q'\<rparr>) init_state)"
  using assms
  by (simp add: resolve_def fallback_def fallback_body_def query_bitness_def step_defs
      primary_sys_maxsize)

theorem bitness_exception_replaced_witness:
  "primary env_none init_state =
     (Inl (ImportError default_name),
      \<lparr>globals = Map.empty, trace = [EvImport default_name capability_names]\<rparr>)
   \<and> is_ImportError (ImportError default_name)
   \<and> import_module env_none ''struct'' [] = Inr (Module [])
   \<and> fst (resolve (env_none\<lparr>sys_maxsize := Inl (AttributeError ''maxsize'')\<rparr>) init_state) =
        Inl (WithContext (ImportError []) (AttributeError ''maxsize''))
   \<and> snd (resolve (env_none\<lparr>sys_maxsize := Inl (AttributeError ''maxsize'')\<rparr>) init_state) =
      snd (resolve (env_none\<lparr>sys_maxsize := Inl (OtherException ''KeyboardInterrupt'' [])\<rparr>)
        init_state)"
proof -
  have h2: "is_ImportError (ImportError default_name)" by simp
  note t = bitness_exception_replaced [OF primary_env_none h2 env_none_sys(5),
      of "AttributeError ''maxsize''" "OtherException ''KeyboardInterrupt'' []"]
  show ?thesis
    by (intro conjI primary_env_none h2 env_none_sys(5) conjunct1 [OF t]
        conjunct2 [OF conjunct2 [OF t]])
qed

text \<open>
  The importer can tell the two failures apart. Without \<open>sys.maxsize\<close> and without
  provider, the run ends with the message-less \<open>ImportError\<close> whose context is the
  \<open>AttributeError\<close> of the read; with \<open>sys.maxsize\<close> and without provider, it ends with the
  \<open>ImportError\<close> of the import system for the lookup key.
\<close>

theorem bitness_failure_distinguishable_counterexample:
  "fst (resolve env_jython init_state) =
     Inl (WithContext (ImportError []) (AttributeError ''maxsize''))
   \<and> fst (resolve env_none init_state) =
     Inl (ImportError ''_pydevd_frame_eval.pydevd_frame_evaluator_linux_39_64'')
   \<and> fst (resolve env_jython init_state) \<noteq> fst (resolve env_none init_state)"
  by (simp add: resolve_env_jython resolve_env_none)

subsection \<open>Bindings and errors over all runs\<close>

text \<open>
  C6. The importer sees the two names bound together or not at all: it gets either the
  module, with both names bound, or the exception of the run and no module. If neither
  provider is present (the default import raises, and the run raises), the module
  namespace itself has neither name bound when the exception leaves it. In any run that
  raises, \<open>stop_frame_eval\<close> is unbound in that namespace, and \<open>frame_eval_func\<close> is unbound
  too unless a default-named module was imported that has it and whose \<open>stop_frame_eval\<close>
  cannot be read.
\<close>

theorem binding_pairing:
  assumes "resolve env init_state = (r, s)"
  shows "(case importer_view (resolve env init_state) of
            Inr ns \<Rightarrow> ns ''frame_eval_func'' \<noteq> None \<and> ns ''stop_frame_eval'' \<noteq> None
          | Inl e \<Rightarrow> r = Inl e)
         \<and> (\<forall>e e0. r = Inl e \<longrightarrow>
              import_module env default_name capability_names = Inl e0 \<longrightarrow>
              globals s ''frame_eval_func'' = None \<and> globals s ''stop_frame_eval'' = None)
         \<and> (\<forall>e. r = Inl e \<longrightarrow>
              globals s ''stop_frame_eval'' = None
              \<and> (globals s ''frame_eval_func'' \<noteq> None \<longrightarrow>
                   (\<exists>m f x. import_module env default_name capability_names = Inr m
                      \<and> getattr m ''frame_eval_func'' = Inr f
                      \<and> getattr m ''stop_frame_eval'' = Inl x)))"
proof (cases "primary env init_state")
  case (Pair r1 s1)
  show ?thesis
  proof (cases r1)
    case (Inr u)
    with Pair have p: "primary env init_state = (Inr u, s1)" by simp
    from assms primary_success_globals [OF p] show ?thesis
      by (auto simp: resolve_primary_ok [OF p] importer_view_def)
  next
    case (Inl e1)
    with Pair have p: "primary env init_state = (Inl e1, s1)" by simp
    note g = primary_failure_globals [OF p]
    show ?thesis
    proof (cases "is_ImportError e1")
      case False
      from assms g show ?thesis
        by (auto simp: resolve_no_fallback [OF p False] importer_view_def)
    next
      case True
      from assms have fb: "fallback env s1 = (r, s)"
        by (simp add: resolve_fallback [OF p True])
      from fallback_globals [OF fb] g assms show ?thesis
        by (cases r) (auto simp: importer_view_def)
    qed
  qed
qed

theorem binding_pairing_witness:
  "resolve env_none init_state =
     (Inl (ImportError ''_pydevd_frame_eval.pydevd_frame_evaluator_linux_39_64''),
      \<lparr>globals = Map.empty,
       trace = [EvImport default_name capability_names, EvImport ''struct'' [],
                EvImport ''sys'' [], EvMaxsize,
                EvFormat ''pydevd_frame_evaluator_linux_39_64'',
                EvFormat ''_pydevd_frame_eval.pydevd_frame_evaluator_linux_39_64'',
                EvImport ''_pydevd_frame_eval.pydevd_frame_evaluator_linux_39_64'' []]\<rparr>)
   \<and> import_module env_none default_name capability_names = Inl (ImportError default_name)
   \<and> importer_view (resolve env_none init_state) =
       Inl (ImportError ''_pydevd_frame_eval.pydevd_frame_evaluator_linux_39_64'')
   \<and> globals (snd (resolve env_none init_state)) ''frame_eval_func'' = None
   \<and> globals (snd (resolve env_none init_state)) ''stop_frame_eval'' = None"
  using binding_pairing [OF resolve_env_none] resolve_env_none default_import_env_none
  by (simp add: importer_view_def)

text \<open>
  C8, as the module behaves. Every exception that a run ends with is an \<open>ImportError\<close>
  (no module under the default name and none under the computed key, or the bitness query
  failed), or the exception that the import system raised for the import performed last,
  or the exception of an attribute read: of one of the two names from the default module
  on line 2, when it is not an \<open>AttributeError\<close>, or of one of the three reads of lines 27
  and 28, of the provider name on the imported object and of the two function names on
  the provider (\<open>AttributeError\<close> when the attribute is missing).
\<close>

theorem surfaced_error_kinds:
  assumes "resolve env init_state = (Inl e, s)"
  shows "is_ImportError e
         \<or> (\<exists>name fromlist. last (trace s) = EvImport name fromlist
               \<and> import_module env name fromlist = Inl e)
         \<or> (\<exists>m. trace s = [EvImport default_name capability_names]
               \<and> import_module env default_name capability_names = Inr m
               \<and> \<not> is_AttributeError e
               \<and> (getattr m ''frame_eval_func'' = Inl e
                    \<or> (\<exists>f. getattr m ''frame_eval_func'' = Inr f
                          \<and> getattr m ''stop_frame_eval'' = Inl e)))
         \<or> (\<exists>mod_name check_name pkg.
               computed_names (trace s) = [mod_name, check_name]
               \<and> import_module env check_name [] = Inr pkg
               \<and> (last (trace s) = EvGetattr mod_name
                      \<and> getattr pkg mod_name = Inl e
                    \<or> (\<exists>prov. getattr pkg mod_name = Inr prov
                          \<and> (last (trace s) = EvGetattr ''frame_eval_func''
                                \<and> getattr prov ''frame_eval_func'' = Inl e
                              \<or> (\<exists>f. getattr prov ''frame_eval_func'' = Inr f
                                    \<and> last (trace s) = EvGetattr ''stop_frame_eval''
                                    \<and> getattr prov ''stop_frame_eval'' = Inl e)))))"
proof (cases "primary env init_state")
  case (Pair r1 s1)
  show ?thesis
  proof (cases r1)
    case (Inr u)
    with Pair have p: "primary env init_state = (Inr u, s1)" by simp
    from assms show ?thesis
      by (simp add: resolve_primary_ok [OF p])
  next
    case (Inl e1)
    with Pair have p: "primary env init_state = (Inl e1, s1)" by simp
    note tr = primary_trace [OF p]
    show ?thesis
    proof (cases "is_ImportError e1")
      case False
      from assms have "e = e1" "s = s1"
        by (simp_all add: resolve_no_fallback [OF p False])
      with False tr primary_error_detail [OF p False] show ?thesis
        by auto
    next
      case True
      from assms have fb: "fallback env s1 = (Inl e, s)"
        by (simp add: resolve_fallback [OF p True])
      from fallback_error [OF fb tr] show ?thesis
        by blast
    qed
  qed
qed

theorem surfaced_error_kinds_witness:
  "resolve env_no_stop init_state =
     (Inl (AttributeError ''stop_frame_eval''),
      \<lparr>globals = Map.empty,
       trace = [EvImport default_name capability_names, EvImport ''struct'' [],
                EvImport ''sys'' [], EvMaxsize,
                EvFormat ''pydevd_frame_evaluator_linux_39_64'',
                EvFormat ''_pydevd_frame_eval.pydevd_frame_evaluator_linux_39_64'',
                EvImport ''_pydevd_frame_eval.pydevd_frame_evaluator_linux_39_64'' [],
                EvGetattr ''pydevd_frame_evaluator_linux_39_64'',
                EvGetattr ''frame_eval_func'', EvGetattr ''stop_frame_eval'']\<rparr>)
   \<and> (\<exists>pkg prov f.
         import_module env_no_stop ''_pydevd_frame_eval.pydevd_frame_evaluator_linux_39_64'' []
           = Inr pkg
         \<and> getattr pkg ''pydevd_frame_evaluator_linux_39_64'' = Inr prov
         \<and> getattr prov ''frame_eval_func'' = Inr f
         \<and> getattr prov ''stop_frame_eval'' = Inl (AttributeError ''stop_frame_eval''))"
  using surfaced_error_kinds [OF resolve_env_no_stop] resolve_env_no_stop
  by (simp add: qualified_import_env_no_stop)

text \<open>
  A qualified provider without \<open>stop_frame_eval\<close>: the read on line 28 raises
  \<open>AttributeError\<close>, which neither handler catches.
\<close>

theorem attribute_error_counterexample:
  "fst (resolve env_no_stop init_state) = Inl (AttributeError ''stop_frame_eval'')
   \<and> \<not> is_ImportError (AttributeError ''stop_frame_eval'')"
  by (simp add: resolve_env_no_stop)

end
